theory Spec2Isabelle
  imports Main
begin

section \<open>Data model\<close>

text \<open>
  \<^verbatim>\<open>pkg/types/notification.go\<close>: the notification record. Go strings are byte
  sequences, as \<open>string\<close> is here; the \<^verbatim>\<open>int64\<close> time stamp is never computed with,
  only copied and printed, and is kept as an \<open>int\<close>.
\<close>

record Notification =
  ID :: string
  Title :: string
  Content :: string
  Link :: string
  Source :: string
  Time :: int

text \<open>
  A Go \<^verbatim>\<open>map[string]bool\<close>: a partial map whose lookup of a missing key yields
  \<^verbatim>\<open>false\<close>.
\<close>

type_synonym boolmap = "string \<rightharpoonup> bool"

definition lookup :: "boolmap \<Rightarrow> string \<Rightarrow> bool" where
  "lookup m k = (case m k of None \<Rightarrow> False | Some b \<Rightarrow> b)"

section \<open>Notification store (\<^verbatim>\<open>internal/scheduler/scheduler.go\<close>)\<close>

text \<open>
  What the store's file operations need from outside the repository: the JSON codec of
  \<^verbatim>\<open>encoding/json\<close> and the outcome of the file-system calls.
\<close>

record Env =
  MarshalIndent :: "Notification list \<Rightarrow> string option"
  Unmarshal :: "string \<Rightarrow> Notification list option"
  MkdirAll_ok :: bool
  WriteFile_ok :: bool
  ReadFile_ok :: bool

text \<open>
  The scheduler's store field, and the notifications file on disk (\<open>None\<close>: the file
  does not exist).
\<close>

record Scheduler =
  recentNotifications :: "Notification list"

type_synonym disk = "string option"

datatype store_error = MkdirFailed | MarshalFailed | WriteFailed | ReadFailed | ParseFailed

text \<open>Lines 226-229: the set of identifiers already in the list.\<close>

fun collectIDs :: "Notification list \<Rightarrow> boolmap \<Rightarrow> boolmap" where
  "collectIDs [] m = m"
| "collectIDs (notif # rest) m = collectIDs rest (m(ID notif \<mapsto> True))"

text \<open>
  Lines 232-250: the loop over the batch. It skips an identifier already seen in the
  batch, and appends the notification to \<open>existingNotifications\<close> or to
  \<open>newNotifications\<close>. The result is \<open>(newNotifications, existingNotifications)\<close>.
\<close>

fun splitBatch ::
  "boolmap \<Rightarrow> Notification list \<Rightarrow> boolmap \<Rightarrow> Notification list \<Rightarrow> Notification list
     \<Rightarrow> Notification list \<times> Notification list" where
  "splitBatch existingIDs [] seenIDs newNotifications existingNotifications =
     (newNotifications, existingNotifications)"
| "splitBatch existingIDs (notif # rest) seenIDs newNotifications existingNotifications =
     (if lookup seenIDs (ID notif)
      then splitBatch existingIDs rest seenIDs newNotifications existingNotifications
      else if lookup existingIDs (ID notif)
      then splitBatch existingIDs rest (seenIDs(ID notif \<mapsto> True))
             newNotifications (existingNotifications @ [notif])
      else splitBatch existingIDs rest (seenIDs(ID notif \<mapsto> True))
             (newNotifications @ [notif]) existingNotifications)"

text \<open>Lines 267-272: the list without the identifiers that are moved.\<close>

fun filterMoved :: "boolmap \<Rightarrow> Notification list \<Rightarrow> Notification list \<Rightarrow> Notification list" where
  "filterMoved existingIDsToRemove [] filteredNotifications = filteredNotifications"
| "filterMoved existingIDsToRemove (notif # rest) filteredNotifications =
     (if \<not> lookup existingIDsToRemove (ID notif)
      then filterMoved existingIDsToRemove rest (filteredNotifications @ [notif])
      else filterMoved existingIDsToRemove rest filteredNotifications)"

text \<open>
  Lines 223-294: the part of \<^verbatim>\<open>addNotifications\<close> under the lock. It returns the new
  list and, unless it returned early, the copy that is to be saved.
\<close>

definition addNotifications_locked ::
  "Notification list \<Rightarrow> Notification list \<Rightarrow> Notification list \<times> Notification list option" where
  "addNotifications_locked recent notifications =
     (let existingIDs = collectIDs recent Map.empty;
          (newNotifications, existingNotifications) =
             splitBatch existingIDs notifications Map.empty [] []
      in if length newNotifications = 0 \<and> length existingNotifications = 0
         then (recent, None)
         else
           let recent1 =
                 (if length existingNotifications > 0
                  then filterMoved (collectIDs existingNotifications Map.empty) recent []
                  else recent);
               notificationsToAdd = existingNotifications @ newNotifications;
               recent2 = notificationsToAdd @ recent1;
               recent3 = (if length recent2 > 50 then take 50 recent2 else recent2)
           in (recent3, Some recent3))"

text \<open>Lines 366-388: \<^verbatim>\<open>saveNotificationsWithData\<close>.\<close>

definition saveNotificationsWithData ::
  "Env \<Rightarrow> Notification list \<Rightarrow> disk \<Rightarrow> (store_error option) \<times> disk" where
  "saveNotificationsWithData env notifications d =
     (if \<not> MkdirAll_ok env then (Some MkdirFailed, d)
      else (case MarshalIndent env notifications of
             None \<Rightarrow> (Some MarshalFailed, d)
           | Some data \<Rightarrow>
               (if \<not> WriteFile_ok env then (Some WriteFailed, d)
                else (None, Some data))))"

text \<open>
  Lines 218-302: \<^verbatim>\<open>addNotifications\<close>. An empty batch returns at once; a failed save is
  logged and changes nothing else.
\<close>

definition addNotifications ::
  "Env \<Rightarrow> Notification list \<Rightarrow> Scheduler \<times> disk \<Rightarrow> Scheduler \<times> disk" where
  "addNotifications env notifications sd =
     (case sd of (s, d) \<Rightarrow>
        if length notifications = 0 then (s, d)
        else (case addNotifications_locked (recentNotifications s) notifications of
               (recent', None) \<Rightarrow> (s\<lparr>recentNotifications := recent'\<rparr>, d)
             | (recent', Some notificationsToSave) \<Rightarrow>
                 (s\<lparr>recentNotifications := recent'\<rparr>,
                  snd (saveNotificationsWithData env notificationsToSave d))))"

text \<open>Lines 305-313: \<^verbatim>\<open>GetRecentNotifications\<close> returns a copy of the list.\<close>

definition GetRecentNotifications :: "Scheduler \<Rightarrow> Notification list" where
  "GetRecentNotifications s = recentNotifications s"

text \<open>
  Lines 391-424: \<^verbatim>\<open>loadNotifications\<close>. A missing file is no error and leaves the list
  as it is; a file that cannot be read or parsed is an error and leaves the list as it is.
\<close>

definition loadNotifications ::
  "Env \<Rightarrow> Scheduler \<times> disk \<Rightarrow> (store_error option) \<times> Scheduler" where
  "loadNotifications env sd =
     (case sd of (s, d) \<Rightarrow>
        (case d of
          None \<Rightarrow> (None, s)
        | Some data \<Rightarrow>
            (if \<not> ReadFile_ok env then (Some ReadFailed, s)
             else (case Unmarshal env data of
                   None \<Rightarrow> (Some ParseFailed, s)
                 | Some notifications \<Rightarrow>
                     (None, s\<lparr>recentNotifications :=
                        (if length notifications > 50 then take 50 notifications
                         else notifications)\<rparr>)))))"

text \<open>Lines 35-54: a new scheduler has an empty list and then loads the file.\<close>

definition NewScheduler :: "Env \<Rightarrow> disk \<Rightarrow> Scheduler" where
  "NewScheduler env d = snd (loadNotifications env (\<lparr>recentNotifications = []\<rparr>, d))"

text \<open>A sequence of \<^verbatim>\<open>addNotifications\<close> calls, one batch after the other.\<close>

fun addAll :: "Env \<Rightarrow> Notification list list \<Rightarrow> Scheduler \<times> disk \<Rightarrow> Scheduler \<times> disk" where
  "addAll env [] sd = sd"
| "addAll env (batch # batches) sd = addAll env batches (addNotifications env batch sd)"

text \<open>
  The batch as the loop of lines 236-250 keeps it, in the words of the specification:
  of several notifications with one identifier only the first stays, and the order is
  the batch's. \<open>seen\<close> holds the identifiers met so far.
\<close>

fun firstByID :: "string set \<Rightarrow> Notification list \<Rightarrow> Notification list" where
  "firstByID seen [] = []"
| "firstByID seen (n # ns) =
     (if ID n \<in> seen then firstByID seen ns else n # firstByID (insert (ID n) seen) ns)"

text \<open>Concrete notifications and environments for the examples below.\<close>

definition n_a :: Notification where
  "n_a = \<lparr>ID = ''github_1'', Title = ''[o/r] first'', Content = ''first'',
          Link = ''https://github.com/o/r/issues/1'', Source = ''github'', Time = 100\<rparr>"

definition n_b :: Notification where
  "n_b = \<lparr>ID = ''github_2'', Title = ''[o/r] second'', Content = ''second'',
          Link = ''https://github.com/o/r/issues/2'', Source = ''github'', Time = 200\<rparr>"

definition n_b2 :: Notification where
  "n_b2 = \<lparr>ID = ''github_2'', Title = ''[o/r] second, edited'', Content = ''second'',
          Link = ''https://github.com/o/r/issues/2'', Source = ''github'', Time = 300\<rparr>"

definition failingEnv :: Env where
  "failingEnv = \<lparr>MarshalIndent = (\<lambda>notifications. None), Unmarshal = (\<lambda>data. None),
                 MkdirAll_ok = False, WriteFile_ok = False, ReadFile_ok = False\<rparr>"

definition longList :: "Notification list" where
  "longList = n_b # replicate 49 n_a @ [n_b2]"

definition tableEnv :: Env where
  "tableEnv =
     \<lparr>MarshalIndent = (\<lambda>notifications. if notifications = [n_a] then Some ''[github_1]'' else None),
      Unmarshal = (\<lambda>data. if data = ''[github_1]'' then Some [n_a]
                           else if data = ''[github_2, github_2]'' then Some [n_b, n_b2]
                           else if data = ''[github_2, 49 * github_1, github_2]'' then Some longList
                           else None),
      MkdirAll_ok = True, WriteFile_ok = True, ReadFile_ok = True\<rparr>"

section \<open>Delivery guard (\<^verbatim>\<open>internal/notifier/windows.go\<close>)\<close>

text \<open>The toast handed to the sink (lines 95-107).\<close>

record Toast =
  AppID :: string
  ToastTitle :: string
  Message :: string
  Arguments :: string

text \<open>
  Outside the repository: \<^verbatim>\<open>Push\<close> of the toast library, whose outcome may depend on
  how many calls came before and on the toast, and \<^verbatim>\<open>filepath.Abs\<close>.
\<close>

record NotifierEnv =
  Push :: "nat \<Rightarrow> Toast \<Rightarrow> bool"
  Abs :: "string \<Rightarrow> string option"

record WindowsNotifier =
  notifiedIDs :: boolmap
  iconPath :: string

text \<open>
  The state of a delivery: the notifier, and the notifications whose toast has been handed
  to the sink so far, in order.
\<close>

type_synonym delivery = "WindowsNotifier \<times> Notification list"

datatype notify_error = PushFailed

text \<open>The UTF-8 bytes of the default message of line 81.\<close>

definition defaultMessage :: string where
  "defaultMessage = [CHR 0xE7, CHR 0x82, CHR 0xB9, CHR 0xE5, CHR 0x87, CHR 0xBB, CHR 0xE6,
     CHR 0x9F, CHR 0xA5, CHR 0xE7, CHR 0x9C, CHR 0x8B, CHR 0xE8, CHR 0xAF, CHR 0xA6, CHR 0xE6,
     CHR 0x83, CHR 0x85]"

text \<open>Lines 78-107: the toast built for a notification.\<close>

definition buildToast :: "NotifierEnv \<Rightarrow> WindowsNotifier \<Rightarrow> Notification \<Rightarrow> Toast" where
  "buildToast env n notification =
     (let title = Title notification;
          message = (if Content notification = [] then defaultMessage else Content notification);
          appID = (if iconPath n \<noteq> []
                   then (case Abs env (iconPath n) of Some absIconPath \<Rightarrow> absIconPath
                         | None \<Rightarrow> ''NotifyMe'')
                   else ''NotifyMe'')
      in \<lparr>AppID = appID, ToastTitle = title, Message = message,
          Arguments = Link notification\<rparr>)"

text \<open>Lines 67-122: \<^verbatim>\<open>Notify\<close>.\<close>

definition Notify ::
  "NotifierEnv \<Rightarrow> Notification \<Rightarrow> delivery \<Rightarrow> notify_error option \<times> delivery" where
  "Notify env notification st =
     (case st of (n, pushed) \<Rightarrow>
        if lookup (notifiedIDs n) (ID notification) then (None, (n, pushed))
        else if \<not> Push env (length pushed) (buildToast env n notification)
        then (Some PushFailed, (n, pushed @ [notification]))
        else (None, (n\<lparr>notifiedIDs := (notifiedIDs n)(ID notification \<mapsto> True)\<rparr>,
                     pushed @ [notification])))"

text \<open>Lines 125-133: \<^verbatim>\<open>NotifyBatch\<close> logs an error and goes on; it returns no error.\<close>

fun NotifyBatch ::
  "NotifierEnv \<Rightarrow> Notification list \<Rightarrow> delivery \<Rightarrow> notify_error option \<times> delivery" where
  "NotifyBatch env [] st = (None, st)"
| "NotifyBatch env (notification # notifications) st =
     NotifyBatch env notifications (snd (Notify env notification st))"

text \<open>Lines 24-33: a new notifier has notified nothing.\<close>

definition NewWindowsNotifier :: "string \<Rightarrow> WindowsNotifier" where
  "NewWindowsNotifier icon = \<lparr>notifiedIDs = Map.empty, iconPath = icon\<rparr>"


text \<open>
  Three sinks for the examples: one that never fails, one whose first call fails, one that
  always fails.
\<close>

definition okSink :: NotifierEnv where
  "okSink = \<lparr>Push = (\<lambda>k t. True), Abs = (\<lambda>p. Some p)\<rparr>"



section \<open>Printing and string helpers\<close>

text \<open>\<^verbatim>\<open>%d\<close> of \<^verbatim>\<open>fmt.Sprintf\<close>: decimal digits, with a minus sign for a negative number.\<close>

definition digitChar :: "nat \<Rightarrow> char" where
  "digitChar n = ''0123456789'' ! n"

function decNat :: "nat \<Rightarrow> string" where
  "decNat n = (if n < 10 then [digitChar n] else decNat (n div 10) @ [digitChar (n mod 10)])"
  by pat_completeness auto
termination
  by (relation "measure id") auto

definition fmt_d :: "int \<Rightarrow> string" where
  "fmt_d i = (if i < 0 then CHR ''-'' # decNat (nat (- i)) else decNat (nat i))"

text \<open>
  \<^verbatim>\<open>strings.ReplaceAll\<close> for a non-empty \<open>old\<close>, the only use the code makes of it:
  matches are replaced from the left and do not overlap.
\<close>

function ReplaceAll :: "string \<Rightarrow> string \<Rightarrow> string \<Rightarrow> string" where
  "ReplaceAll s old new =
     (if s = [] \<or> old = [] then s
      else if take (length old) s = old then new @ ReplaceAll (drop (length old) s) old new
      else hd s # ReplaceAll (tl s) old new)"
  by pat_completeness auto
termination
  by (relation "measure (\<lambda>(s, old, new). length s)") auto

text \<open>
  Lines 1453-1463: the inner loop of \<^verbatim>\<open>stripHTML\<close>, from index \<open>i\<close> on. It yields
  \<open>start\<close> and \<open>end\<close>, \<open>None\<close> standing for \<^verbatim>\<open>-1\<close>.
\<close>

fun scanTag :: "string \<Rightarrow> nat \<Rightarrow> nat option \<Rightarrow> nat option \<times> nat option" where
  "scanTag [] i start = (start, None)"
| "scanTag (c # cs) i start =
     (let start' = (if c = CHR ''<'' then Some i else start)
      in if start' \<noteq> None \<and> c = CHR ''>'' then (start', Some i)
         else scanTag cs (Suc i) start')"


text \<open>
  Lines 1452-1469: the outer loop of \<^verbatim>\<open>stripHTML\<close>, which cuts \<open>result[start..end]\<close> out
  as long as the inner loop finds a tag.
\<close>

function removeTags :: "string \<Rightarrow> string" where
  "removeTags result =
     (case scanTag result 0 None of
        (Some start, Some endIdx) \<Rightarrow>
          (if endIdx > start
           then removeTags (take start result @ drop (endIdx + 1) result)
           else result)
      | _ \<Rightarrow> result)"
  by pat_completeness auto
termination
proof (relation "measure length")
  show "wf (measure length)" by simp
next
  fix result :: string and x y start endIdx
  assume scan: "(x, y) = scanTag result 0 None" "x = Some start" "y = Some endIdx"
    and lt: "start < endIdx"
  have bound: "scanTag s i st = (a, Some e) \<Longrightarrow> e < i + length s" for s i st a e
  proof (induction s arbitrary: i st)
    case Nil
    then show ?case by simp
  next
    case (Cons c cs)
    show ?case
    proof (cases "(if c = CHR ''<'' then Some i else st) \<noteq> None \<and> c = CHR ''>''")
      case True
      then show ?thesis using Cons.prems by (auto simp: Let_def)
    next
      case False
      then have "scanTag cs (Suc i) (if c = CHR ''<'' then Some i else st) = (a, Some e)"
        using Cons.prems by (auto simp: Let_def)
      then show ?thesis using Cons.IH by fastforce
    qed
  qed
  have "endIdx < length result"
    using bound [of result 0 None x endIdx] scan by simp
  then show "(take start result @ drop (endIdx + 1) result, result) \<in> measure length"
    using lt by simp
qed

text \<open>
  Lines 1448-1478: \<^verbatim>\<open>stripHTML\<close>. \<^verbatim>\<open>strings.TrimSpace\<close> is the library's and is a
  parameter.
\<close>

definition stripHTML :: "(string \<Rightarrow> string) \<Rightarrow> string \<Rightarrow> string" where
  "stripHTML TrimSpace html =
     (let result = removeTags html;
          result = ReplaceAll result ''&lt;'' ''<'';
          result = ReplaceAll result ''&gt;'' ''>'';
          result = ReplaceAll result ''&amp;'' ''&'';
          result = ReplaceAll result ''&quot;'' [CHR 0x22];
          result = ReplaceAll result ''&#39;'' [CHR 0x27];
          result = ReplaceAll result ''&nbsp;'' '' ''
      in TrimSpace result)"

text \<open>Lines 1440-1445 of the monitor file: \<^verbatim>\<open>truncateString\<close>, on bytes.\<close>

definition truncateString :: "string \<Rightarrow> nat \<Rightarrow> string" where
  "truncateString s maxLen = (if length s \<le> maxLen then s else take maxLen s @ ''...'')"


section \<open>HTTP as the monitors use it\<close>

text \<open>
  A request as the monitors build it: the URL without its query, the \<^verbatim>\<open>since\<close> query
  parameter, and the headers that are set. The monitors' own requests go to URLs made of
  the constructors' base URL and fixed paths, for which \<^verbatim>\<open>url.Parse\<close> and
  \<^verbatim>\<open>http.NewRequest\<close> have no error to return; the release request goes to a URL that the
  server supplied, and the refusal of that URL is part of the model.
\<close>

record Request =
  URL :: string
  Since :: "string option"
  Authorization :: "string option"
  Accept :: "string option"
  IfModifiedSince :: "string option"
  UserAgent :: "string option"

text \<open>
  A response: the status code, the \<^verbatim>\<open>Last-Modified\<close> header as \<^verbatim>\<open>Header.Get\<close> returns
  it (empty when absent), and the body that \<^verbatim>\<open>io.ReadAll\<close> returns (\<open>None\<close> when reading
  fails).
\<close>

record Response =
  StatusCode :: nat
  LastModified :: string
  Body :: "string option"

datatype fetch_error =
    TokenNotSet
  | RequestFailed
  | ReadBodyFailed
  | BadStatus nat string
  | ParseResponseFailed
  | NeedLogin
  | Forbidden
  | ApiError string

section \<open>Issue-tracker monitor (\<^verbatim>\<open>monitor\<close> package, GitHub)\<close>

text \<open>
  A \<^verbatim>\<open>time.Time\<close> is kept as its Unix seconds; the zero \<^verbatim>\<open>time.Time{}\<close> is year 1.
\<close>

type_synonym gotime = int

definition zeroTime :: gotime where
  "zeroTime = - 62135596800"

definition IsZero :: "gotime \<Rightarrow> bool" where
  "IsZero t = (t = zeroTime)"

text \<open>One element of the decoded response (lines 501-515).\<close>

record GitHubItem =
  ItemID :: string
  RepositoryFullName :: string
  SubjectTitle :: string
  SubjectType :: string
  SubjectURL :: string
  UpdatedAt :: gotime
  HTMLURL :: string

record Release =
  TagName :: string
  ReleaseHTMLURL :: string

text \<open>
  Outside the repository: whether \<^verbatim>\<open>http.NewRequest\<close> accepts a URL, the HTTP client
  (\<open>None\<close>: the request failed), the time formats and \<^verbatim>\<open>http.ParseTime\<close>, and the
  JSON decoders.
\<close>

record GitHubEnv =
  NewRequestOk :: "string \<Rightarrow> bool"
  Do :: "Request \<Rightarrow> Response option"
  FormatRFC3339 :: "gotime \<Rightarrow> string"
  FormatHTTP :: "gotime \<Rightarrow> string"
  ParseTime :: "string \<Rightarrow> gotime option"
  UnmarshalItems :: "string \<Rightarrow> GitHubItem list option"
  UnmarshalRelease :: "string \<Rightarrow> Release option"

record GitHubMonitor =
  baseURL :: string
  token :: string
  lastModified :: gotime

text \<open>The monitor and the requests sent so far.\<close>

type_synonym github_state = "GitHubMonitor \<times> Request list"


text \<open>
  Lines 601-661: \<^verbatim>\<open>convertReleaseAPIToHTML\<close>. When \<^verbatim>\<open>http.NewRequest\<close> refuses the
  URL nothing is sent; otherwise one request is sent.
\<close>

definition convertReleaseAPIToHTML ::
  "GitHubEnv \<Rightarrow> GitHubMonitor \<Rightarrow> string \<Rightarrow> string \<Rightarrow> Request list \<Rightarrow> string \<times> Request list" where
  "convertReleaseAPIToHTML env m apiURL repoFullName sent =
     (if apiURL = [] then ([], sent)
      else if \<not> NewRequestOk env apiURL then ([], sent)
      else
        let req = \<lparr>URL = apiURL, Since = None,
                    Authorization = Some (''token '' @ token m),
                    Accept = Some ''application/vnd.github.v3+json'',
                    IfModifiedSince = None, UserAgent = None\<rparr>
        in (case Do env req of
              None \<Rightarrow> ([], sent @ [req])
            | Some resp \<Rightarrow>
                (if StatusCode resp \<noteq> 200 then ([], sent @ [req])
                 else (case Body resp of
                         None \<Rightarrow> ([], sent @ [req])
                       | Some bodyBytes \<Rightarrow>
                           (case UnmarshalRelease env bodyBytes of
                              None \<Rightarrow> ([], sent @ [req])
                            | Some release \<Rightarrow>
                                (if ReleaseHTMLURL release \<noteq> []
                                 then (ReleaseHTMLURL release, sent @ [req])
                                 else if TagName release \<noteq> []
                                 then (''https://github.com/'' @ repoFullName
                                         @ ''/releases/tag/'' @ TagName release, sent @ [req])
                                 else ([], sent @ [req])))))))"

text \<open>Lines 564-597: \<^verbatim>\<open>convertGitHubAPIToHTML\<close>.\<close>

definition convertGitHubAPIToHTML ::
  "GitHubEnv \<Rightarrow> GitHubMonitor \<Rightarrow> string \<Rightarrow> string \<Rightarrow> string \<Rightarrow> Request list
     \<Rightarrow> string \<times> Request list" where
  "convertGitHubAPIToHTML env m apiURL subjectType repoFullName sent =
     (if apiURL = [] then ([], sent)
      else if subjectType = ''Release''
      then convertReleaseAPIToHTML env m apiURL repoFullName sent
      else if length apiURL \<ge> 22 \<and> take 22 apiURL = ''https://api.github.com''
      then
        (let path = drop 22 apiURL;
             htmlURL = (if length path \<ge> 7 \<and> take 7 path = ''/repos/''
                        then ''https://github.com/'' @ drop 7 path
                        else ''https://github.com'' @ path)
         in (ReplaceAll htmlURL ''/pulls/'' ''/pull/'', sent))
      else (apiURL, sent))"

text \<open>Lines 524-557: the loop that turns the decoded items into notifications.\<close>

fun itemsToNotifications ::
  "GitHubEnv \<Rightarrow> GitHubMonitor \<Rightarrow> GitHubItem list \<Rightarrow> Notification list \<Rightarrow> Request list
     \<Rightarrow> Notification list \<times> Request list" where
  "itemsToNotifications env m [] result sent = (result, sent)"
| "itemsToNotifications env m (item # items) result sent =
     (let title = ''['' @ RepositoryFullName item @ ''] '' @ SubjectTitle item;
          content = truncateString (SubjectTitle item) 100;
          (link0, sent') = convertGitHubAPIToHTML env m (SubjectURL item) (SubjectType item)
                             (RepositoryFullName item) sent;
          link = (if link0 = [] then HTMLURL item else link0);
          notification = \<lparr>ID = ''github_'' @ ItemID item, Title = title, Content = content,
                           Link = link, Source = ''github'', Time = UpdatedAt item\<rparr>
      in itemsToNotifications env m items (result @ [notification]) sent')"

text \<open>Lines 454-460 and 474-481: the cursor follows a \<^verbatim>\<open>Last-Modified\<close> header that parses.\<close>

definition updateLastModified :: "GitHubEnv \<Rightarrow> Response \<Rightarrow> GitHubMonitor \<Rightarrow> GitHubMonitor" where
  "updateLastModified env resp m =
     (if LastModified resp \<noteq> []
      then (case ParseTime env (LastModified resp) of
              Some parsedTime \<Rightarrow> m\<lparr>lastModified := parsedTime\<rparr>
            | None \<Rightarrow> m)
      else m)"

text \<open>
  Lines 402-442: the request. The cursor is \<open>since\<close> when that is not zero and the
  monitor's \<open>lastModified\<close> otherwise; a cursor that is not zero goes into the
  \<^verbatim>\<open>since\<close> parameter and the \<^verbatim>\<open>If-Modified-Since\<close> header.
\<close>

definition notificationsRequest :: "GitHubEnv \<Rightarrow> GitHubMonitor \<Rightarrow> gotime \<Rightarrow> Request" where
  "notificationsRequest env m since =
     (let lastModified0 = (if \<not> IsZero since then since else lastModified m)
      in \<lparr>URL = baseURL m @ ''/notifications'',
          Since = (if \<not> IsZero lastModified0
                   then Some (FormatRFC3339 env lastModified0) else None),
          Authorization = Some (''token '' @ token m),
          Accept = Some ''application/vnd.github.v3+json'',
          IfModifiedSince = (if \<not> IsZero lastModified0
                             then Some (FormatHTTP env lastModified0) else None),
          UserAgent = None\<rparr>)"

text \<open>Lines 396-561: \<^verbatim>\<open>FetchNotificationsSince\<close>.\<close>

definition FetchNotificationsSince ::
  "GitHubEnv \<Rightarrow> gotime \<Rightarrow> github_state \<Rightarrow> (fetch_error + Notification list) \<times> github_state" where
  "FetchNotificationsSince env since st =
     (case st of (m, sent) \<Rightarrow>
        if token m = [] then (Inl TokenNotSet, (m, sent))
        else
          let req = notificationsRequest env m since
          in (case Do env req of
                None \<Rightarrow> (Inl RequestFailed, (m, sent @ [req]))
              | Some resp \<Rightarrow>
                  (if StatusCode resp = 304
                   then (Inr [], (updateLastModified env resp m, sent @ [req]))
                   else (case Body resp of
                           None \<Rightarrow> (Inl ReadBodyFailed, (m, sent @ [req]))
                         | Some bodyBytes \<Rightarrow>
                             (if StatusCode resp \<noteq> 200
                              then (Inl (BadStatus (StatusCode resp) bodyBytes), (m, sent @ [req]))
                              else
                                let m' = updateLastModified env resp m
                                in (case UnmarshalItems env bodyBytes of
                                      None \<Rightarrow> (Inl ParseResponseFailed, (m', sent @ [req]))
                                    | Some notifications \<Rightarrow>
                                        (case itemsToNotifications env m' notifications []
                                                (sent @ [req]) of
                                           (result, sent') \<Rightarrow> (Inr result, (m', sent')))))))))"

text \<open>Lines 390-392: \<^verbatim>\<open>FetchNotifications\<close>.\<close>

definition FetchNotifications ::
  "GitHubEnv \<Rightarrow> github_state \<Rightarrow> (fetch_error + Notification list) \<times> github_state" where
  "FetchNotifications env st = FetchNotificationsSince env zeroTime st"

section \<open>Community-site monitor (\<^verbatim>\<open>monitor\<close> package, ld246)\<close>

text \<open>Lines 680-683.\<close>

record articleState =
  LastUpdateTime :: int
  CommentCount :: int

text \<open>The decoded responses (lines 930-948, 1145-1163 and 1313-1324), with the fields read.\<close>

record Article =
  OID :: string
  ArticleTitle :: string
  ArticlePreviewContent :: string
  ArticleCreateTime :: int
  ArticleUpdateTime :: int
  ArticleCommentCount :: int

record ArticlesResponse =
  ArticlesCode :: int
  Articles :: "Article list"
  ArticlesMsg :: string

record CountResponse =
  CountCode :: int
  UnreadNotificationCnt :: int
  UnreadCommentedNotificationCnt :: int
  UnreadAtNotificationCnt :: int
  UnreadReplyNotificationCnt :: int
  UnreadChatNotificationCnt :: int
  UnreadFollowingNotificationCnt :: int
  CountMsg :: string

record Message =
  MessageID :: string
  Msg :: string
  DataType :: int
  DataID :: string
  CreatedTime :: int
  HasRead :: bool

record MessagesResponse =
  MessagesCode :: int
  Messages :: "Message list"
  MessagesMsg :: string

text \<open>
  Outside the repository: the HTTP client, the JSON decoders, \<^verbatim>\<open>strings.TrimSpace\<close>, the
  clock, and whether a state can be encoded, its directory made and its file written.
\<close>

record Ld246Env =
  Ld246Do :: "Request \<Rightarrow> Response option"
  UnmarshalArticles :: "string \<Rightarrow> ArticlesResponse option"
  UnmarshalCount :: "string \<Rightarrow> CountResponse option"
  UnmarshalMessages :: "string \<Rightarrow> MessagesResponse option"
  TrimSpace :: "string \<Rightarrow> string"
  NowUnixMilli :: int
  StateMarshal_ok :: bool
  StateMkdirAll_ok :: bool
  StateWriteFile_ok :: bool

text \<open>Lines 686-696; the fields \<open>baseURL\<close> and \<open>token\<close> carry a prefix here.\<close>

record Ld246Monitor =
  ldBaseURL :: string
  ldToken :: string
  seenArticles :: "string \<rightharpoonup> articleState"
  seenMessages :: boolmap

text \<open>
  The monitor, the requests sent so far, and the two state files (\<open>None\<close>: no file). A
  file is kept as the value it encodes: the articles file as the map, the messages file as
  the map whose keys are the array's elements.
\<close>

record Ld246State =
  monitor :: Ld246Monitor
  requests :: "Request list"
  articlesFile :: "(string \<rightharpoonup> articleState) option"
  messagesFile :: "boolmap option"

text \<open>Lines 699-721, 764-794 and 823-854: a new monitor starts from the state files.\<close>

definition NewLd246Monitor ::
  "string \<Rightarrow> (string \<rightharpoonup> articleState) option \<Rightarrow> boolmap option \<Rightarrow> Ld246Monitor" where
  "NewLd246Monitor tok articles messages =
     \<lparr>ldBaseURL = ''https://ld246.com'', ldToken = tok,
      seenArticles = (case articles of None \<Rightarrow> Map.empty | Some m \<Rightarrow> m),
      seenMessages = (case messages of None \<Rightarrow> Map.empty | Some m \<Rightarrow> m)\<rparr>"

text \<open>
  Lines 797-820 and 857-886: saving a state file. Each of the three steps (encoding,
  making the directory, writing) can fail; the failure is logged and the file stays as it
  was.
\<close>

definition saveSeenArticles :: "Ld246Env \<Rightarrow> Ld246State \<Rightarrow> Ld246State" where
  "saveSeenArticles env st =
     (if \<not> StateMarshal_ok env then st
      else if \<not> StateMkdirAll_ok env then st
      else if \<not> StateWriteFile_ok env then st
      else st\<lparr>articlesFile := Some (seenArticles (monitor st))\<rparr>)"

definition saveSeenMessages :: "Ld246Env \<Rightarrow> Ld246State \<Rightarrow> Ld246State" where
  "saveSeenMessages env st =
     (if \<not> StateMarshal_ok env then st
      else if \<not> StateMkdirAll_ok env then st
      else if \<not> StateWriteFile_ok env then st
      else st\<lparr>messagesFile := Some (seenMessages (monitor st))\<rparr>)"

text \<open>The request of lines 892-901, 1103-1114 and 1275-1284.\<close>

definition ld246Request :: "Ld246Monitor \<Rightarrow> string \<Rightarrow> Request" where
  "ld246Request m url =
     \<lparr>URL = url, Since = None,
      Authorization = (if ldToken m \<noteq> [] then Some (''token '' @ ldToken m) else None),
      Accept = None, IfModifiedSince = None, UserAgent = Some ''NotifyMe/1.0''\<rparr>"

text \<open>
  The status checks of lines 910-919, 1124-1134 and 1293-1302, and the read of the body
  that follows them.
\<close>

definition checkResponse :: "Response \<Rightarrow> fetch_error + string" where
  "checkResponse resp =
     (if StatusCode resp = 401 then Inl NeedLogin
      else if StatusCode resp = 403 then Inl Forbidden
      else if StatusCode resp \<noteq> 200
      then Inl (BadStatus (StatusCode resp) (case Body resp of None \<Rightarrow> [] | Some body \<Rightarrow> body))
      else (case Body resp of None \<Rightarrow> Inl ReadBodyFailed | Some bodyBytes \<Rightarrow> Inr bodyBytes))"

text \<open>The UTF-8 bytes of the titles and texts of lines 1022, 1249, 1250 and 1374-1384.\<close>

definition titleNewReplyPrefix :: string where
  "titleNewReplyPrefix =
     [CHR 0xE6, CHR 0x9C, CHR 0x89, CHR 0xE6, CHR 0x96, CHR 0xB0, CHR 0xE5, CHR 0x9B,
     CHR 0x9E, CHR 0xE5, CHR 0xB8, CHR 0x96, CHR 0x3A, CHR 0x20]"

definition titleNewMessage :: string where
  "titleNewMessage =
     [CHR 0xE6, CHR 0x96, CHR 0xB0, CHR 0xE6, CHR 0xB6, CHR 0x88, CHR 0xE6, CHR 0x81,
     CHR 0xAF]"

definition titleCommented :: string where
  "titleCommented =
     [CHR 0xE6, CHR 0x94, CHR 0xB6, CHR 0xE5, CHR 0x88, CHR 0xB0, CHR 0xE5, CHR 0x9B,
     CHR 0x9E, CHR 0xE5, CHR 0xB8, CHR 0x96]"

definition titleAt :: string where
  "titleAt =
     [CHR 0xE6, CHR 0x8F, CHR 0x90, CHR 0xE5, CHR 0x8F, CHR 0x8A, CHR 0xE6, CHR 0x88,
     CHR 0x91, CHR 0xE7, CHR 0x9A, CHR 0x84]"

definition titleReply :: string where
  "titleReply =
     [CHR 0xE6, CHR 0x94, CHR 0xB6, CHR 0xE5, CHR 0x88, CHR 0xB0, CHR 0xE5, CHR 0x9B,
     CHR 0x9E, CHR 0xE5, CHR 0xA4, CHR 0x8D]"

definition titleFollowing :: string where
  "titleFollowing =
     [CHR 0xE6, CHR 0x88, CHR 0x91, CHR 0xE5, CHR 0x85, CHR 0xB3, CHR 0xE6, CHR 0xB3,
     CHR 0xA8, CHR 0xE7, CHR 0x9A, CHR 0x84]"

definition titleChat :: string where
  "titleChat =
     [CHR 0xE8, CHR 0x81, CHR 0x8A, CHR 0xE5, CHR 0xA4, CHR 0xA9, CHR 0xE6, CHR 0xB6,
     CHR 0x88, CHR 0xE6, CHR 0x81, CHR 0xAF]"



text \<open>Lines 976-979 and 1061-1064.\<close>

definition timeValueOf :: "Article \<Rightarrow> int" where
  "timeValueOf item =
     (if ArticleUpdateTime item = 0 then ArticleCreateTime item else ArticleUpdateTime item)"

definition stateOf :: "Article \<Rightarrow> articleState" where
  "stateOf item = \<lparr>LastUpdateTime = timeValueOf item, CommentCount = ArticleCommentCount item\<rparr>"

text \<open>Lines 960-963.\<close>

fun collectArticleIDs :: "Article list \<Rightarrow> boolmap \<Rightarrow> boolmap" where
  "collectArticleIDs [] currentArticleIDs = currentArticleIDs"
| "collectArticleIDs (item # items) currentArticleIDs =
     collectArticleIDs items (currentArticleIDs(OID item \<mapsto> True))"

text \<open>
  Lines 974-1047: the loop that compares the listing with \<open>seenArticles\<close>. It yields
  \<open>newNotifications\<close> and \<open>updatedArticles\<close>.
\<close>

fun compareArticles ::
  "Ld246Env \<Rightarrow> Ld246Monitor \<Rightarrow> Article list \<Rightarrow> Notification list
     \<Rightarrow> (string \<rightharpoonup> articleState) \<Rightarrow> Notification list \<times> (string \<rightharpoonup> articleState)" where
  "compareArticles env m [] newNotifications updatedArticles =
     (newNotifications, updatedArticles)"
| "compareArticles env m (item # items) newNotifications updatedArticles =
     (let timeValue = timeValueOf item;
          isNew = (case seenArticles m (OID item) of
                     None \<Rightarrow> True
                   | Some seenState \<Rightarrow>
                       timeValue > LastUpdateTime seenState
                       \<or> ArticleCommentCount item > CommentCount seenState)
      in if \<not> isNew then compareArticles env m items newNotifications updatedArticles
         else
           let content0 = truncateString
                            (stripHTML (TrimSpace env) (ArticlePreviewContent item)) 100;
               content = (if content0 = [] then ArticleTitle item else content0);
               hasNewReply = (case seenArticles m (OID item) of
                                None \<Rightarrow> False
                              | Some seenState \<Rightarrow>
                                  timeValue > LastUpdateTime seenState
                                  \<or> ArticleCommentCount item > CommentCount seenState);
               title = (if hasNewReply then titleNewReplyPrefix @ ArticleTitle item
                        else ArticleTitle item);
               notificationID =
                 (if hasNewReply
                  then ''ld246_article_'' @ OID item @ ''_'' @ fmt_d timeValue
                  else ''ld246_article_'' @ OID item);
               notification =
                 \<lparr>ID = notificationID, Title = title, Content = content,
                  Link = ldBaseURL m @ ''/article/'' @ OID item, Source = ''ld246'',
                  Time = timeValue\<rparr>
           in compareArticles env m items (newNotifications @ [notification])
                (updatedArticles(OID item \<mapsto> stateOf item)))"

text \<open>Lines 1059-1073: the items that did not change get their state written as well.\<close>

fun recordUnchanged ::
  "(string \<rightharpoonup> articleState) \<Rightarrow> Article list \<Rightarrow> (string \<rightharpoonup> articleState)
     \<Rightarrow> (string \<rightharpoonup> articleState)" where
  "recordUnchanged updatedArticles [] seen = seen"
| "recordUnchanged updatedArticles (item # items) seen =
     (if updatedArticles (OID item) = None
      then recordUnchanged updatedArticles items (seen(OID item \<mapsto> stateOf item))
      else recordUnchanged updatedArticles items seen)"

text \<open>Lines 1077-1082: the entries whose identifier is not in the listing are deleted.\<close>

definition purgeMissing ::
  "boolmap \<Rightarrow> (string \<rightharpoonup> articleState) \<Rightarrow> (string \<rightharpoonup> articleState)" where
  "purgeMissing currentArticleIDs seen =
     (\<lambda>k. if \<not> lookup currentArticleIDs k then None else seen k)"

text \<open>Lines 889-1095: \<^verbatim>\<open>FetchRecentReplies\<close>.\<close>

definition FetchRecentReplies ::
  "Ld246Env \<Rightarrow> Ld246State \<Rightarrow> (fetch_error + Notification list) \<times> Ld246State" where
  "FetchRecentReplies env st =
     (let m = monitor st;
          req = ld246Request m (ldBaseURL m @ ''/api/v2/articles/latest/reply?p=1'');
          st1 = st\<lparr>requests := requests st @ [req]\<rparr>
      in (case Ld246Do env req of
            None \<Rightarrow> (Inl RequestFailed, st1)
          | Some resp \<Rightarrow>
              (case checkResponse resp of
                 Inl err \<Rightarrow> (Inl err, st1)
               | Inr bodyBytes \<Rightarrow>
                   (case UnmarshalArticles env bodyBytes of
                      None \<Rightarrow> (Inl ParseResponseFailed, st1)
                    | Some apiResp \<Rightarrow>
                        (if ArticlesCode apiResp \<noteq> 0
                         then (Inl (ApiError (ArticlesMsg apiResp)), st1)
                         else
                           let currentArticleIDs =
                                 collectArticleIDs (Articles apiResp) Map.empty;
                               (newNotifications, updatedArticles) =
                                 compareArticles env m (Articles apiResp) [] Map.empty;
                               seen1 = seenArticles m ++ updatedArticles;
                               seen2 = recordUnchanged updatedArticles (Articles apiResp) seen1;
                               seen3 = purgeMissing currentArticleIDs seen2;
                               st2 = st1\<lparr>monitor := m\<lparr>seenArticles := seen3\<rparr>\<rparr>
                           in (Inr newNotifications, saveSeenArticles env st2))))))"

text \<open>Lines 1373-1385: the title for a category.\<close>

definition titleOfType :: "string \<Rightarrow> string" where
  "titleOfType notificationType =
     (if notificationType = ''commented'' then titleCommented
      else if notificationType = ''at'' then titleAt
      else if notificationType = ''reply'' then titleReply
      else if notificationType = ''following'' then titleFollowing
      else if notificationType = ''chat'' then titleChat
      else titleNewMessage)"

text \<open>Lines 1387-1398: the link for a message.\<close>

definition linkOfMessage :: "Ld246Monitor \<Rightarrow> Message \<Rightarrow> string" where
  "linkOfMessage m item =
     (if DataID item \<noteq> []
      then (if DataType item = 3 \<or> DataType item = 33 \<or> DataType item = 34 \<or> DataType item = 35
            then ldBaseURL m @ ''/article/'' @ DataID item
            else if DataType item = 4 \<or> DataType item = 9 \<or> DataType item = 15
                    \<or> DataType item = 16 \<or> DataType item = 20 \<or> DataType item = 22
            then ldBaseURL m @ ''/article/'' @ DataID item
            else ldBaseURL m)
      else ldBaseURL m)"

text \<open>
  Lines 1347-1410: the loop over the messages of a category. It yields
  \<open>newNotifications\<close> and \<open>newMessageIDs\<close>; \<open>seenMessages\<close> is only read.
\<close>

fun compareMessages ::
  "Ld246Monitor \<Rightarrow> string \<Rightarrow> Message list \<Rightarrow> Notification list \<Rightarrow> string list
     \<Rightarrow> Notification list \<times> string list" where
  "compareMessages m notificationType [] newNotifications newMessageIDs =
     (newNotifications, newMessageIDs)"
| "compareMessages m notificationType (item # items) newNotifications newMessageIDs =
     (if HasRead item
      then compareMessages m notificationType items newNotifications newMessageIDs
      else
        let messageID = notificationType @ ''_'' @ MessageID item
        in if lookup (seenMessages m) messageID
           then compareMessages m notificationType items newNotifications newMessageIDs
           else
             let notification =
                   \<lparr>ID = ''ld246_'' @ notificationType @ ''_'' @ MessageID item,
                    Title = titleOfType notificationType,
                    Content = truncateString (Msg item) 100,
                    Link = linkOfMessage m item, Source = ''ld246'',
                    Time = CreatedTime item\<rparr>
             in compareMessages m notificationType items (newNotifications @ [notification])
                  (newMessageIDs @ [messageID]))"






text \<open>Concrete monitors, servers and listings for the examples below.\<close>

definition ghMonitorT1 :: GitHubMonitor where
  "ghMonitorT1 = \<lparr>baseURL = ''https://api.github.com'', token = ''ghp_token'',
                   lastModified = 1704067200\<rparr>"

definition ghEnvBadBody :: GitHubEnv where
  "ghEnvBadBody =
     \<lparr>NewRequestOk = (\<lambda>url. True),
      Do = (\<lambda>req. Some \<lparr>StatusCode = 200, LastModified = ''Tue, 02 Jan 2024 00:00:00 GMT'',
                           Body = Some ''<html>''\<rparr>),
      FormatRFC3339 = (\<lambda>t. ''2024-01-01T00:00:00Z''),
      FormatHTTP = (\<lambda>t. ''Mon, 01 Jan 2024 00:00:00 GMT''),
      ParseTime = (\<lambda>s. if s = ''Tue, 02 Jan 2024 00:00:00 GMT'' then Some 1704153600 else None),
      UnmarshalItems = (\<lambda>body. if body = ''[]'' then Some [] else None),
      UnmarshalRelease = (\<lambda>body. None)\<rparr>"


definition article1 :: Article where
  "article1 = \<lparr>OID = ''1700000000001'', ArticleTitle = ''Hello'',
                ArticlePreviewContent = ''<p>Hi &amp; welcome</p>'', ArticleCreateTime = 100,
                ArticleUpdateTime = 200, ArticleCommentCount = 1\<rparr>"

definition ldEnvListing :: Ld246Env where
  "ldEnvListing =
     \<lparr>Ld246Do = (\<lambda>req. Some \<lparr>StatusCode = 200, LastModified = [], Body = Some ''listing 1''\<rparr>),
      UnmarshalArticles = (\<lambda>body. if body = ''listing 1''
                                    then Some \<lparr>ArticlesCode = 0, Articles = [article1],
                                               ArticlesMsg = []\<rparr>
                                    else None),
      UnmarshalCount = (\<lambda>body. None),
      UnmarshalMessages = (\<lambda>body. None),
      TrimSpace = (\<lambda>s. s), NowUnixMilli = 1700000000000,
      StateMarshal_ok = True, StateMkdirAll_ok = True, StateWriteFile_ok = True\<rparr>"

definition ldStateNoToken :: Ld246State where
  "ldStateNoToken = \<lparr>monitor = NewLd246Monitor [] None None, requests = [],
                      articlesFile = None, messagesFile = None\<rparr>"

text \<open>The number a decimal string stands for; used to show that printing is injective.\<close>

definition valDigit :: "char \<Rightarrow> nat" where
  "valDigit c = of_char c - 48"

definition valNat :: "string \<Rightarrow> nat" where
  "valNat s = foldl (\<lambda>a c. 10 * a + valDigit c) 0 s"



definition ldEnvListing2 :: Ld246Env where
  "ldEnvListing2 =
     ldEnvListing\<lparr>UnmarshalArticles :=
       (\<lambda>body. if body = ''listing 1''
               then Some \<lparr>ArticlesCode = 0,
                          Articles = [article1\<lparr>ArticleUpdateTime := 300,
                                               ArticleCommentCount := 2\<rparr>],
                          ArticlesMsg = []\<rparr>
               else None)\<rparr>"

definition ldEnvListing3 :: Ld246Env where
  "ldEnvListing3 =
     ldEnvListing\<lparr>UnmarshalArticles :=
       (\<lambda>body. if body = ''listing 1''
               then Some \<lparr>ArticlesCode = 0,
                          Articles = [article1\<lparr>ArticleUpdateTime := 300,
                                               ArticleCommentCount := 3\<rparr>],
                          ArticlesMsg = []\<rparr>
               else None)\<rparr>"

definition afterFirstFetch :: Ld246State where
  "afterFirstFetch = snd (FetchRecentReplies ldEnvListing ldStateNoToken)"

definition afterSecondFetch :: Ld246State where
  "afterSecondFetch = snd (FetchRecentReplies ldEnvListing2 afterFirstFetch)"


text \<open>
  What a fetch hands on: the identifiers of the notifications it returned, and the batch
  the scheduler delivers (lines 170-191: nothing after an error).
\<close>

definition fetchedIDs :: "fetch_error + Notification list \<Rightarrow> string list option" where
  "fetchedIDs r = (case r of Inl err \<Rightarrow> None | Inr notifications \<Rightarrow> Some (map ID notifications))"

definition batchOf :: "fetch_error + Notification list \<Rightarrow> Notification list" where
  "batchOf r = (case r of Inl err \<Rightarrow> [] | Inr notifications \<Rightarrow> notifications)"



subsection \<open>Text cut inside a character\<close>

text \<open>
  What \<^verbatim>\<open>encoding/json\<close> guarantees of a string it decoded: it is valid UTF-8 (an
  invalid byte is replaced by U+FFFD, on encoding and on decoding). The predicate reads
  the bytes as RFC 3629 lays them out: one byte below 0x80, or a lead byte 0xC2-0xF4 with
  one to three continuation bytes, the first of them in the narrower range that excludes
  overlong forms, surrogates and code points above U+10FFFF.
\<close>

definition byteIn :: "nat \<Rightarrow> char \<Rightarrow> nat \<Rightarrow> bool" where
  "byteIn lo c hi = (lo \<le> of_char c \<and> of_char c \<le> hi)"

fun validUTF8 :: "string \<Rightarrow> bool" where
  "validUTF8 [] = True"
| "validUTF8 (c # cs) =
     (if byteIn 0x00 c 0x7F then validUTF8 cs
      else if byteIn 0xC2 c 0xDF
      then (case cs of
              c1 # rest \<Rightarrow> byteIn 0x80 c1 0xBF \<and> validUTF8 rest
            | _ \<Rightarrow> False)
      else if byteIn 0xE0 c 0xEF
      then (case cs of
              c1 # c2 # rest \<Rightarrow>
                byteIn (if c = CHR 0xE0 then 0xA0 else 0x80) c1
                       (if c = CHR 0xED then 0x9F else 0xBF)
                \<and> byteIn 0x80 c2 0xBF \<and> validUTF8 rest
            | _ \<Rightarrow> False)
      else if byteIn 0xF0 c 0xF4
      then (case cs of
              c1 # c2 # c3 # rest \<Rightarrow>
                byteIn (if c = CHR 0xF0 then 0x90 else 0x80) c1
                       (if c = CHR 0xF4 then 0x8F else 0xBF)
                \<and> byteIn 0x80 c2 0xBF \<and> byteIn 0x80 c3 0xBF \<and> validUTF8 rest
            | _ \<Rightarrow> False)
      else False)"

text \<open>
  An unread message whose text is two ASCII letters and 34 times a three-byte character,
  104 bytes: byte 100 falls inside the 33rd character. \<open>cutNote\<close> is the notification
  that lines 1365-1401 build for it, \<open>coercedNote\<close> the same notification with the two
  bytes of the cut character replaced by U+FFFD each.
\<close>

definition longText :: string where
  "longText = ''ab'' @ concat (replicate 34 [CHR 0xE9, CHR 0x80, CHR 0x9A])"

definition cutMessage :: Message where
  "cutMessage = \<lparr>MessageID = ''m1'', Msg = longText, DataType = 0, DataID = [],
                  CreatedTime = 1700000000000, HasRead = False\<rparr>"

definition cutNote :: Notification where
  "cutNote = \<lparr>ID = ''ld246_reply_m1'', Title = titleReply,
              Content = ''ab'' @ concat (replicate 32 [CHR 0xE9, CHR 0x80, CHR 0x9A])
                          @ [CHR 0xE9, CHR 0x80] @ ''...'',
              Link = ''https://ld246.com'', Source = ''ld246'', Time = 1700000000000\<rparr>"

definition coercedNote :: Notification where
  "coercedNote = cutNote\<lparr>Content :=
      ''ab'' @ concat (replicate 32 [CHR 0xE9, CHR 0x80, CHR 0x9A])
        @ [CHR 0xEF, CHR 0xBF, CHR 0xBD, CHR 0xEF, CHR 0xBF, CHR 0xBD] @ ''...''\<rparr>"

definition jsonEnv :: Env where
  "jsonEnv =
     \<lparr>MarshalIndent = (\<lambda>notifications. if notifications = [cutNote]
                                         then Some ''[ld246_reply_m1]'' else None),
      Unmarshal = (\<lambda>data. if data = ''[ld246_reply_m1]'' then Some [coercedNote] else None),
      MkdirAll_ok = True, WriteFile_ok = True, ReadFile_ok = True\<rparr>"

subsection \<open>Chat counts\<close>






section \<open>Properties of the notification store\<close>

lemma lookup_upd: "lookup (m(k \<mapsto> True)) k' = (k' = k \<or> lookup m k')"
  by (simp add: lookup_def)

lemma lookup_empty: "lookup Map.empty k = False"
  by (simp add: lookup_def)

lemma lookup_collectIDs: "lookup (collectIDs rs m) k = (lookup m k \<or> k \<in> ID ` set rs)"
  by (induction rs arbitrary: m) (auto simp: lookup_upd)

lemma filterMoved_filter:
  "filterMoved m rs acc = acc @ filter (\<lambda>n. \<not> lookup m (ID n)) rs"
  by (induction rs arbitrary: acc) auto

lemma splitBatch_filter_gen:
  "(\<And>k. lookup seen k = (k \<in> S)) \<Longrightarrow>
   splitBatch ex batch seen nw mv =
     (nw @ filter (\<lambda>n. \<not> lookup ex (ID n)) (firstByID S batch),
      mv @ filter (\<lambda>n. lookup ex (ID n)) (firstByID S batch))"
proof (induction batch arbitrary: seen S nw mv)
  case Nil
  then show ?case by simp
next
  case (Cons n ns)
  have step: "\<And>k. lookup (seen(ID n \<mapsto> True)) k = (k \<in> insert (ID n) S)"
    using Cons.prems by (auto simp: lookup_upd)
  show ?case
    by (simp add: Cons.prems Cons.IH [OF Cons.prems] Cons.IH [OF step])
qed

lemma splitBatch_filter:
  "splitBatch ex batch Map.empty [] [] =
     (filter (\<lambda>n. \<not> lookup ex (ID n)) (firstByID {} batch),
      filter (\<lambda>n. lookup ex (ID n)) (firstByID {} batch))"
  using splitBatch_filter_gen [of Map.empty "{}" ex batch "[]" "[]"]
  by (simp add: lookup_empty)

lemma firstByID_ids: "ID ` set (firstByID seen ns) = ID ` set ns - seen"
  by (induction ns arbitrary: seen) auto

lemma firstByID_distinct: "distinct (map ID (firstByID seen ns))"
  by (induction ns arbitrary: seen) (auto simp: firstByID_ids)

lemma firstByID_Nil: "(firstByID {} ns = []) = (ns = [])"
  by (cases ns) auto


lemma filter_both_Nil: "(filter P xs = [] \<and> filter (\<lambda>x. \<not> P x) xs = []) = (xs = [])"
  by (cases xs) auto

lemma filter_moved_ids:
  "filter (\<lambda>r. ID r \<notin> ID ` set (filter (\<lambda>n. ID n \<in> ID ` set recent) D)) recent =
   filter (\<lambda>r. ID r \<notin> ID ` set D) recent"
  by (rule filter_cong) (force simp: image_iff)+

lemma take50_if: "(if length xs > 50 then take 50 xs else xs) = take 50 xs"
  by simp

lemma addNotifications_locked_unfold:
  "addNotifications_locked recent batch =
     (if filter (\<lambda>n. ID n \<notin> ID ` set recent) (firstByID {} batch) = [] \<and>
         filter (\<lambda>n. ID n \<in> ID ` set recent) (firstByID {} batch) = []
      then (recent, None)
      else (take 50 (filter (\<lambda>n. ID n \<in> ID ` set recent) (firstByID {} batch)
                  @ filter (\<lambda>n. ID n \<notin> ID ` set recent) (firstByID {} batch)
                  @ filter (\<lambda>r. ID r \<notin> ID ` set
                       (filter (\<lambda>n. ID n \<in> ID ` set recent) (firstByID {} batch))) recent),
            Some (take 50 (filter (\<lambda>n. ID n \<in> ID ` set recent) (firstByID {} batch)
                  @ filter (\<lambda>n. ID n \<notin> ID ` set recent) (firstByID {} batch)
                  @ filter (\<lambda>r. ID r \<notin> ID ` set
                       (filter (\<lambda>n. ID n \<in> ID ` set recent) (firstByID {} batch))) recent))))"
proof -
  let ?D = "firstByID {} batch"
  let ?mv = "filter (\<lambda>n. ID n \<in> ID ` set recent) ?D"
  let ?nw = "filter (\<lambda>n. ID n \<notin> ID ` set recent) ?D"
  have split: "splitBatch (collectIDs recent Map.empty) batch Map.empty [] [] = (?nw, ?mv)"
    by (simp add: splitBatch_filter lookup_collectIDs lookup_empty)
  have rest: "(if length ?mv > 0
               then filterMoved (collectIDs ?mv Map.empty) recent [] else recent) =
              filter (\<lambda>r. ID r \<notin> ID ` set ?mv) recent"
  proof (cases "?mv = []")
    case True
    then show ?thesis by simp
  next
    case False
    then show ?thesis
      by (simp add: filterMoved_filter lookup_collectIDs lookup_empty)
  qed
  show ?thesis
    unfolding addNotifications_locked_def Let_def split prod.case rest take50_if
    by simp
qed

lemma addNotifications_locked_fst:
  "fst (addNotifications_locked recent batch) =
     (if batch = [] then recent
      else take 50 (filter (\<lambda>n. ID n \<in> ID ` set recent) (firstByID {} batch)
                  @ filter (\<lambda>n. ID n \<notin> ID ` set recent) (firstByID {} batch)
                  @ filter (\<lambda>r. ID r \<notin> ID ` set batch) recent))"
proof -
  have e: "(filter (\<lambda>n. ID n \<notin> ID ` set recent) (firstByID {} batch) = [] \<and>
            filter (\<lambda>n. ID n \<in> ID ` set recent) (firstByID {} batch) = []) = (batch = [])"
    using filter_both_Nil [of "\<lambda>n. ID n \<in> ID ` set recent" "firstByID {} batch"]
    by (auto simp: firstByID_Nil)
  have ids: "ID ` set (firstByID {} batch) = ID ` set batch"
    by (simp add: firstByID_ids)
  show ?thesis
    unfolding addNotifications_locked_unfold e filter_moved_ids ids
    by simp
qed

lemma addNotifications_locked_snd:
  "snd (addNotifications_locked recent batch) =
     (if batch = [] then None else Some (fst (addNotifications_locked recent batch)))"
proof -
  have e: "(filter (\<lambda>n. ID n \<notin> ID ` set recent) (firstByID {} batch) = [] \<and>
            filter (\<lambda>n. ID n \<in> ID ` set recent) (firstByID {} batch) = []) = (batch = [])"
    using filter_both_Nil [of "\<lambda>n. ID n \<in> ID ` set recent" "firstByID {} batch"]
    by (auto simp: firstByID_Nil)
  show ?thesis
    unfolding addNotifications_locked_unfold e
    by simp
qed

lemma addNotifications_recent:
  "recentNotifications (fst (addNotifications env batch (s, d))) =
     fst (addNotifications_locked (recentNotifications s) batch)"
proof (cases "batch = []")
  case True
  then show ?thesis by (simp add: addNotifications_def addNotifications_locked_fst)
next
  case False
  then show ?thesis
    by (cases "addNotifications_locked (recentNotifications s) batch")
       (auto simp: addNotifications_def split: option.splits)
qed

lemma ids_filter_disjoint:
  "ID ` set (filter (\<lambda>n. ID n \<in> A) D) \<inter> ID ` set (filter (\<lambda>n. ID n \<notin> A) D) = {}"
proof -
  have "ID ` set (filter (\<lambda>n. ID n \<in> A) D) \<subseteq> A" by auto
  moreover have "ID ` set (filter (\<lambda>n. ID n \<notin> A) D) \<subseteq> - A" by auto
  ultimately show ?thesis by blast
qed

lemma ids_filter_subset: "ID ` set (filter P D) \<subseteq> ID ` set D"
  by auto

lemma merged_distinct:
  assumes "distinct (map ID recent)"
  shows "distinct (map ID (filter (\<lambda>n. ID n \<in> ID ` set recent) (firstByID {} batch)
                  @ filter (\<lambda>n. ID n \<notin> ID ` set recent) (firstByID {} batch)
                  @ filter (\<lambda>r. ID r \<notin> ID ` set batch) recent))"
proof -
  let ?D = "firstByID {} batch"
  let ?A = "ID ` set recent"
  let ?mv = "filter (\<lambda>n. ID n \<in> ?A) ?D"
  let ?nw = "filter (\<lambda>n. ID n \<notin> ?A) ?D"
  let ?rest = "filter (\<lambda>r. ID r \<notin> ID ` set batch) recent"
  have d: "distinct (map ID ?D)" by (rule firstByID_distinct)
  have ids: "ID ` set ?D = ID ` set batch" by (simp add: firstByID_ids)
  have 1: "distinct (map ID ?mv)"
    using d by (rule distinct_map_filter)
  have 2: "distinct (map ID ?nw)"
    using d by (rule distinct_map_filter)
  have 3: "distinct (map ID ?rest)"
    using assms by (rule distinct_map_filter)
  have r: "ID ` set ?rest \<subseteq> - (ID ` set batch)" by auto
  have m: "ID ` set ?mv \<subseteq> ID ` set batch"
    using ids_filter_subset [of "\<lambda>n. ID n \<in> ?A" ?D] ids by simp
  have n: "ID ` set ?nw \<subseteq> ID ` set batch"
    using ids_filter_subset [of "\<lambda>n. ID n \<notin> ?A" ?D] ids by simp
  have 4: "ID ` set ?mv \<inter> ID ` set ?nw = {}"
    by (rule ids_filter_disjoint)
  have 5: "ID ` set ?mv \<inter> ID ` set ?rest = {}"
    using r m by blast
  have 6: "ID ` set ?nw \<inter> ID ` set ?rest = {}"
    using r n by blast
  have "distinct (map ID ?mv @ map ID ?nw @ map ID ?rest)"
    unfolding distinct_append set_append set_map
    using 1 2 3 4 5 6 by blast
  then show ?thesis by (simp only: map_append)
qed

lemma addNotifications_locked_inv:
  assumes "length recent \<le> 50" "distinct (map ID recent)"
  shows "length (fst (addNotifications_locked recent batch)) \<le> 50 \<and>
         distinct (map ID (fst (addNotifications_locked recent batch)))"
proof (cases "batch = []")
  case True
  then show ?thesis using assms by (simp add: addNotifications_locked_fst)
next
  case False
  let ?xs = "filter (\<lambda>n. ID n \<in> ID ` set recent) (firstByID {} batch)
                  @ filter (\<lambda>n. ID n \<notin> ID ` set recent) (firstByID {} batch)
                  @ filter (\<lambda>r. ID r \<notin> ID ` set batch) recent"
  have f: "fst (addNotifications_locked recent batch) = take 50 ?xs"
    using False by (simp only: addNotifications_locked_fst if_False)
  have "distinct (map ID (take 50 ?xs))"
    using merged_distinct [OF assms(2), of batch]
    by (simp only: take_map [symmetric] distinct_take)
  moreover have "length (take 50 ?xs) \<le> 50"
    by (simp only: length_take min.cobounded2)
  ultimately show ?thesis unfolding f by (rule conjI [rotated])
qed

lemma addNotifications_inv:
  assumes "length (recentNotifications (fst sd)) \<le> 50"
          "distinct (map ID (recentNotifications (fst sd)))"
  shows "length (recentNotifications (fst (addNotifications env batch sd))) \<le> 50 \<and>
         distinct (map ID (recentNotifications (fst (addNotifications env batch sd))))"
proof -
  obtain s d where sd: "sd = (s, d)" by (cases sd)
  show ?thesis
    using assms addNotifications_locked_inv [of "recentNotifications s" batch]
    unfolding sd addNotifications_recent by simp
qed

lemma addAll_inv:
  "length (recentNotifications (fst sd)) \<le> 50 \<Longrightarrow>
   distinct (map ID (recentNotifications (fst sd))) \<Longrightarrow>
   length (recentNotifications (fst (addAll env batches sd))) \<le> 50 \<and>
   distinct (map ID (recentNotifications (fst (addAll env batches sd))))"
proof (induction batches arbitrary: sd)
  case Nil
  then show ?case by simp
next
  case (Cons batch batches)
  have "length (recentNotifications (fst (addNotifications env batch sd))) \<le> 50 \<and>
        distinct (map ID (recentNotifications (fst (addNotifications env batch sd))))"
    using Cons.prems by (rule addNotifications_inv)
  then show ?case
    using Cons.IH [of "addNotifications env batch sd"] by simp
qed

text \<open>
  C1: after every sequence of \<^verbatim>\<open>addNotifications\<close> calls on an initially empty store
  the list has at most 50 entries and no two of them share an identifier. The batches are
  arbitrary, so the statement covers the state after each call of a sequence.
\<close>

theorem C1_store_bounded_and_duplicate_free:
  "length (GetRecentNotifications
             (fst (addAll env batches (\<lparr>recentNotifications = []\<rparr>, d)))) \<le> 50 \<and>
   distinct (map ID (GetRecentNotifications
             (fst (addAll env batches (\<lparr>recentNotifications = []\<rparr>, d)))))"
  unfolding GetRecentNotifications_def
  by (rule addAll_inv) simp_all

text \<open>
  C2, as stated, fails: the notifications that are moved come first and the new ones
  after them (line 279), so a batch that lists a new notification before one that is
  already stored does not appear at the front in batch order.
\<close>

theorem C2_counterexample:
  "GetRecentNotifications
     (fst (addNotifications failingEnv [n_a, n_b] (\<lparr>recentNotifications = [n_b2]\<rparr>, None)))
   = [n_b, n_a] \<and>
   GetRecentNotifications
     (fst (addNotifications failingEnv [n_a, n_b] (\<lparr>recentNotifications = [n_b2]\<rparr>, None)))
   \<noteq> [n_a, n_b]"
  by (simp add: GetRecentNotifications_def addNotifications_recent addNotifications_locked_fst
        n_a_def n_b_def n_b2_def)

text \<open>
  C2, amended: for a non-empty batch the new list is, cut to 50 entries, the batch's
  notifications whose identifier is stored (first occurrences, in batch order), then the
  batch's other notifications (first occurrences, in batch order), then the stored
  notifications whose identifier is not in the batch. Adding a single notification whose
  identifier is stored puts it first and does not make the list longer.
\<close>

theorem C2_moved_then_new_at_front:
  "(batch \<noteq> [] \<longrightarrow>
      GetRecentNotifications (fst (addNotifications env batch (s, d))) =
        take 50
          (filter (\<lambda>n. ID n \<in> ID ` set (recentNotifications s)) (firstByID {} batch)
           @ filter (\<lambda>n. ID n \<notin> ID ` set (recentNotifications s)) (firstByID {} batch)
           @ filter (\<lambda>r. ID r \<notin> ID ` set batch) (recentNotifications s))) \<and>
   (ID n \<in> ID ` set (recentNotifications s) \<longrightarrow>
      GetRecentNotifications (fst (addNotifications env [n] (s, d))) =
        take 50 (n # filter (\<lambda>r. ID r \<noteq> ID n) (recentNotifications s)) \<and>
      length (GetRecentNotifications (fst (addNotifications env [n] (s, d))))
        \<le> length (recentNotifications s))"
proof (intro conjI impI)
  assume "batch \<noteq> []"
  then show "GetRecentNotifications (fst (addNotifications env batch (s, d))) =
        take 50
          (filter (\<lambda>n. ID n \<in> ID ` set (recentNotifications s)) (firstByID {} batch)
           @ filter (\<lambda>n. ID n \<notin> ID ` set (recentNotifications s)) (firstByID {} batch)
           @ filter (\<lambda>r. ID r \<notin> ID ` set batch) (recentNotifications s))"
    by (simp only: GetRecentNotifications_def addNotifications_recent
          addNotifications_locked_fst if_False)
next
  assume n: "ID n \<in> ID ` set (recentNotifications s)"
  then show eq: "GetRecentNotifications (fst (addNotifications env [n] (s, d))) =
        take 50 (n # filter (\<lambda>r. ID r \<noteq> ID n) (recentNotifications s))"
    by (simp add: GetRecentNotifications_def addNotifications_recent
          addNotifications_locked_fst)
  obtain r where "r \<in> set (recentNotifications s)" "\<not> ID r \<noteq> ID n"
    using n by (auto simp: image_iff)
  then have "length (filter (\<lambda>r. ID r \<noteq> ID n) (recentNotifications s))
               < length (recentNotifications s)"
    by (rule length_filter_less)
  then show "length (GetRecentNotifications (fst (addNotifications env [n] (s, d))))
        \<le> length (recentNotifications s)"
    unfolding eq by simp
qed

theorem C2_moved_then_new_at_front_witness:
  "[n_a, n_b] \<noteq> [] \<and> ID n_b \<in> ID ` set (recentNotifications \<lparr>recentNotifications = [n_b2]\<rparr>) \<and>
   GetRecentNotifications
     (fst (addNotifications failingEnv [n_a, n_b] (\<lparr>recentNotifications = [n_b2]\<rparr>, None)))
     = [n_b, n_a] \<and>
   GetRecentNotifications
     (fst (addNotifications failingEnv [n_b] (\<lparr>recentNotifications = [n_b2]\<rparr>, None)))
     = [n_b]"
  using C2_moved_then_new_at_front
          [of "[n_a, n_b]" failingEnv "\<lparr>recentNotifications = [n_b2]\<rparr>" None n_b]
  by (simp add: n_a_def n_b_def n_b2_def)

lemma loadNotifications_parsed:
  "ReadFile_ok env \<Longrightarrow> Unmarshal env data = Some parsed \<Longrightarrow>
   recentNotifications (snd (loadNotifications env (s, Some data))) = take 50 parsed"
  by (simp add: loadNotifications_def)

lemma addNotifications_disk:
  "batch \<noteq> [] \<Longrightarrow>
   snd (addNotifications env batch (s, d)) =
     snd (saveNotificationsWithData env
            (fst (addNotifications_locked (recentNotifications s) batch)) d)"
  using addNotifications_locked_snd [of "recentNotifications s" batch]
  by (cases "addNotifications_locked (recentNotifications s) batch")
     (auto simp: addNotifications_def)

lemma addNotifications_length:
  "batch \<noteq> [] \<Longrightarrow>
   length (fst (addNotifications_locked recent batch)) \<le> 50"
  by (simp only: addNotifications_locked_fst if_False length_take min.cobounded2)

lemma NewScheduler_unfold:
  "recentNotifications (NewScheduler env d) =
     (case d of
        None \<Rightarrow> []
      | Some data \<Rightarrow>
          if \<not> ReadFile_ok env then []
          else (case Unmarshal env data of None \<Rightarrow> [] | Some parsed \<Rightarrow> take 50 parsed))"
  by (simp add: NewScheduler_def loadNotifications_def take50_if split: option.splits)

lemma NewScheduler_cases:
  "recentNotifications (NewScheduler env d) = [] \<or>
   (\<exists>data parsed. Unmarshal env data = Some parsed \<and>
      recentNotifications (NewScheduler env d) = take 50 parsed)"
  unfolding NewScheduler_unfold by (auto split: option.splits)

lemma reloaded_valid:
  assumes "\<And>data parsed y. Unmarshal env data = Some parsed \<Longrightarrow> y \<in> set parsed
             \<Longrightarrow> validUTF8 (Content y)"
    and "x \<in> set (GetRecentNotifications (NewScheduler env d))"
  shows "validUTF8 (Content x)"
proof -
  have "x \<in> set (recentNotifications (NewScheduler env d))"
    using assms(2) by (simp add: GetRecentNotifications_def)
  then obtain data parsed where p: "Unmarshal env data = Some parsed" "x \<in> set (take 50 parsed)"
    using NewScheduler_cases [of env d] by auto
  show ?thesis
    using assms(1) [OF p(1) in_set_takeD [OF p(2)]] .
qed


text \<open>
  C9: the round trip fails on a state that the monitors produce. \<^verbatim>\<open>truncateString\<close>
  cuts at byte 100, here inside a three-byte character of a message text that is valid
  UTF-8, so the notification's content is not valid UTF-8. \<^verbatim>\<open>addNotifications\<close>
  stores that notification and saves the list. Every string that \<^verbatim>\<open>encoding/json\<close>
  decodes is valid UTF-8; so whatever the file then holds, a scheduler started on it does
  not hold the list that was saved, and the same goes for every list with such a content.
  The other half of the claim holds: a file that parses to a list loads as its first 50
  records.
\<close>

theorem C9_cut_character_breaks_round_trip:
  assumes "\<And>data parsed y. Unmarshal env data = Some parsed \<Longrightarrow> y \<in> set parsed
             \<Longrightarrow> validUTF8 (Content y)"
    and "x \<in> set notifications" and "\<not> validUTF8 (Content x)"
  shows "validUTF8 (Msg cutMessage) \<and>
         fst (compareMessages (monitor ldStateNoToken) ''reply'' [cutMessage] [] []) = [cutNote] \<and>
         Content cutNote = truncateString (Msg cutMessage) 100 \<and>
         \<not> validUTF8 (Content cutNote) \<and>
         GetRecentNotifications
           (fst (addNotifications env [cutNote] (\<lparr>recentNotifications = []\<rparr>, d))) = [cutNote] \<and>
         snd (addNotifications env [cutNote] (\<lparr>recentNotifications = []\<rparr>, d)) =
           snd (saveNotificationsWithData env [cutNote] d) \<and>
         GetRecentNotifications
           (NewScheduler env (snd (addNotifications env [cutNote] (\<lparr>recentNotifications = []\<rparr>, d))))
           \<noteq> [cutNote] \<and>
         GetRecentNotifications
           (NewScheduler env (snd (saveNotificationsWithData env notifications d)))
           \<noteq> notifications \<and>
         (ReadFile_ok env \<and> Unmarshal env data' = Some parsed' \<longrightarrow>
            GetRecentNotifications (snd (loadNotifications env (s, Some data'))) = take 50 parsed')"
proof -
  have c1: "validUTF8 (Msg cutMessage)" by code_simp
  have c2: "fst (compareMessages (monitor ldStateNoToken) ''reply'' [cutMessage] [] []) = [cutNote]"
    by code_simp
  have c3: "Content cutNote = truncateString (Msg cutMessage) 100" by code_simp
  have c4: "\<not> validUTF8 (Content cutNote)" by code_simp
  have c5: "GetRecentNotifications
           (fst (addNotifications env [cutNote] (\<lparr>recentNotifications = []\<rparr>, d))) = [cutNote]"
    by (simp add: GetRecentNotifications_def addNotifications_recent addNotifications_locked_fst)
  have c6: "snd (addNotifications env [cutNote] (\<lparr>recentNotifications = []\<rparr>, d)) =
           snd (saveNotificationsWithData env [cutNote] d)"
    by (simp add: addNotifications_disk addNotifications_locked_fst)
  have never: "GetRecentNotifications (NewScheduler env dsk) \<noteq> ns"
    if "z \<in> set ns" and "\<not> validUTF8 (Content z)" for dsk ns z
  proof
    assume "GetRecentNotifications (NewScheduler env dsk) = ns"
    then have "z \<in> set (GetRecentNotifications (NewScheduler env dsk))"
      using that(1) by simp
    then have "validUTF8 (Content z)"
      using reloaded_valid [of env z dsk] assms(1) by blast
    then show False using that(2) by simp
  qed
  have c7: "GetRecentNotifications
           (NewScheduler env (snd (addNotifications env [cutNote] (\<lparr>recentNotifications = []\<rparr>, d))))
           \<noteq> [cutNote]"
    by (rule never [of cutNote]) (simp_all add: c4)
  have c8: "GetRecentNotifications
           (NewScheduler env (snd (saveNotificationsWithData env notifications d)))
           \<noteq> notifications"
    by (rule never [OF assms(2,3)])
  have c9: "ReadFile_ok env \<and> Unmarshal env data' = Some parsed' \<longrightarrow>
            GetRecentNotifications (snd (loadNotifications env (s, Some data'))) = take 50 parsed'"
    by (simp add: GetRecentNotifications_def loadNotifications_parsed)
  show ?thesis
    by (intro conjI c1 c2 c3 c4 c5 c6 c7 c8 c9)
qed

theorem C9_cut_character_breaks_round_trip_witness:
  "validUTF8 (Content coercedNote) \<and>
   cutNote \<in> set [cutNote] \<and> \<not> validUTF8 (Content cutNote) \<and>
   saveNotificationsWithData jsonEnv [cutNote] None = (None, Some ''[ld246_reply_m1]'') \<and>
   GetRecentNotifications
     (NewScheduler jsonEnv (snd (saveNotificationsWithData jsonEnv [cutNote] None)))
     = [coercedNote] \<and>
   GetRecentNotifications
     (NewScheduler jsonEnv
        (snd (addNotifications jsonEnv [cutNote] (\<lparr>recentNotifications = []\<rparr>, None))))
     \<noteq> GetRecentNotifications
         (fst (addNotifications jsonEnv [cutNote] (\<lparr>recentNotifications = []\<rparr>, None)))"
proof -
  have v: "validUTF8 (Content coercedNote)" by code_simp
  have contract: "\<And>data parsed y. Unmarshal jsonEnv data = Some parsed \<Longrightarrow> y \<in> set parsed
             \<Longrightarrow> validUTF8 (Content y)"
    using v by (auto simp: jsonEnv_def split: if_splits)
  have h: "cutNote \<in> set [cutNote]" "\<not> validUTF8 (Content cutNote)"
    by simp code_simp
  have sv: "saveNotificationsWithData jsonEnv [cutNote] None = (None, Some ''[ld246_reply_m1]'')"
    by (simp add: saveNotificationsWithData_def jsonEnv_def)
  have ld: "GetRecentNotifications (NewScheduler jsonEnv (Some ''[ld246_reply_m1]''))
              = [coercedNote]"
    by (simp add: GetRecentNotifications_def NewScheduler_unfold jsonEnv_def)
  note t = C9_cut_character_breaks_round_trip [of jsonEnv cutNote "[cutNote]" None, OF contract h]
  have ne: "GetRecentNotifications
     (NewScheduler jsonEnv
        (snd (addNotifications jsonEnv [cutNote] (\<lparr>recentNotifications = []\<rparr>, None))))
     \<noteq> GetRecentNotifications
         (fst (addNotifications jsonEnv [cutNote] (\<lparr>recentNotifications = []\<rparr>, None)))"
    using t by simp
  show ?thesis
    using v h sv ld ne by (simp add: sv)
qed

lemma addNotifications_locked_distinct:
  assumes "distinct (map ID recent)"
  shows "distinct (map ID (fst (addNotifications_locked recent batch)))"
proof (cases "batch = []")
  case True
  then show ?thesis using assms by (simp add: addNotifications_locked_fst)
next
  case False
  let ?xs = "filter (\<lambda>n. ID n \<in> ID ` set recent) (firstByID {} batch)
                  @ filter (\<lambda>n. ID n \<notin> ID ` set recent) (firstByID {} batch)
                  @ filter (\<lambda>r. ID r \<notin> ID ` set batch) recent"
  have f: "fst (addNotifications_locked recent batch) = take 50 ?xs"
    using False by (simp only: addNotifications_locked_fst if_False)
  show ?thesis
    unfolding f using merged_distinct [OF assms, of batch]
    by (simp only: take_map [symmetric] distinct_take)
qed

lemma addNotifications_locked_untouched:
  assumes "ID ` set batch \<inter> ID ` set recent = {}"
    and "length (firstByID {} batch) + length recent \<le> 50"
  shows "fst (addNotifications_locked recent batch) = firstByID {} batch @ recent"
proof (cases "batch = []")
  case True
  then show ?thesis by (simp add: addNotifications_locked_fst)
next
  case False
  have ids: "ID ` set (firstByID {} batch) = ID ` set batch"
    by (simp add: firstByID_ids)
  have mv: "filter (\<lambda>n. ID n \<in> ID ` set recent) (firstByID {} batch) = []"
    unfolding filter_empty_conv using assms(1) ids by blast
  have nw: "filter (\<lambda>n. ID n \<notin> ID ` set recent) (firstByID {} batch) = firstByID {} batch"
    unfolding filter_id_conv using assms(1) ids by blast
  have rest: "filter (\<lambda>r. ID r \<notin> ID ` set batch) recent = recent"
    unfolding filter_id_conv using assms(1) by blast
  show ?thesis
    using False assms(2)
    by (simp only: addNotifications_locked_fst if_False mv nw rest append_Nil
          take_all_iff length_append)
qed

lemma addAll_distinct:
  "distinct (map ID (recentNotifications (fst sd))) \<Longrightarrow>
   distinct (map ID (recentNotifications (fst (addAll env batches sd))))"
proof (induction batches arbitrary: sd)
  case Nil
  then show ?case by simp
next
  case (Cons batch batches)
  obtain s d where sd: "sd = (s, d)" by (cases sd)
  have "distinct (map ID (recentNotifications (fst (addNotifications env batch sd))))"
    using Cons.prems unfolding sd
    by (simp only: addNotifications_recent addNotifications_locked_distinct fst_conv)
  then show ?case
    using Cons.IH [of "addNotifications env batch sd"] by simp
qed

lemma same_id_not_distinct:
  assumes "i < j" and "j < length xs" and "ID (xs ! i) = ID (xs ! j)"
  shows "\<not> distinct (map ID xs)"
proof
  assume "distinct (map ID xs)"
  then have "map ID xs ! i \<noteq> map ID xs ! j"
    using assms(1,2) by (simp add: nth_eq_iff_index_eq del: nth_map)
  then show False
    using assms by simp
qed

text \<open>
  C10: a file that can be read and parses to a list loads as the first 50 records of that
  list, as they are, at startup and on every other load; a list of at most 50 records
  loads whole. Two records with one identifier among the records that are kept are both
  in the store after loading, and the store's list then has a duplicate identifier: the
  load does not re-establish the property. Any number of \<^verbatim>\<open>addNotifications\<close>
  calls from a duplicate-free list leave a duplicate-free list; a call on a list with a
  duplicate identifier leaves the duplicate in place when the batch shares no identifier
  with the list and nothing is cut off.
\<close>

theorem C10_load_truncates_without_deduplicating:
  assumes "ReadFile_ok env" and "Unmarshal env data = Some parsed"
  shows "GetRecentNotifications (NewScheduler env (Some data)) = take 50 parsed \<and>
         GetRecentNotifications (snd (loadNotifications env (s, Some data))) = take 50 parsed \<and>
         (length parsed \<le> 50 \<longrightarrow>
            GetRecentNotifications (NewScheduler env (Some data)) = parsed) \<and>
         (\<forall>i j. i < j \<and> j < length (GetRecentNotifications (NewScheduler env (Some data))) \<and>
                ID (parsed ! i) = ID (parsed ! j) \<longrightarrow>
                parsed ! i \<in> set (GetRecentNotifications (NewScheduler env (Some data))) \<and>
                parsed ! j \<in> set (GetRecentNotifications (NewScheduler env (Some data))) \<and>
                \<not> distinct (map ID (GetRecentNotifications (NewScheduler env (Some data))))) \<and>
         (distinct (map ID (recentNotifications s')) \<longrightarrow>
            distinct (map ID (GetRecentNotifications (fst (addAll env batches (s', d)))))) \<and>
         (\<not> distinct (map ID (recentNotifications s'')) \<and>
          ID ` set batch \<inter> ID ` set (recentNotifications s'') = {} \<and>
          length (firstByID {} batch) + length (recentNotifications s'') \<le> 50 \<longrightarrow>
            \<not> distinct (map ID (GetRecentNotifications
                                  (fst (addNotifications env batch (s'', d))))))"
proof -
  let ?loaded = "GetRecentNotifications (NewScheduler env (Some data))"
  have c1: "?loaded = take 50 parsed"
    using assms
    by (simp add: NewScheduler_def GetRecentNotifications_def loadNotifications_parsed)
  have c2: "GetRecentNotifications (snd (loadNotifications env (s, Some data))) = take 50 parsed"
    using assms by (simp add: GetRecentNotifications_def loadNotifications_parsed)
  have c3: "length parsed \<le> 50 \<longrightarrow> ?loaded = parsed"
    unfolding c1 by simp
  have c4: "\<forall>i j. i < j \<and> j < length ?loaded \<and> ID (parsed ! i) = ID (parsed ! j) \<longrightarrow>
                parsed ! i \<in> set ?loaded \<and> parsed ! j \<in> set ?loaded \<and>
                \<not> distinct (map ID ?loaded)"
  proof (intro allI impI)
    fix i j
    assume h: "i < j \<and> j < length ?loaded \<and> ID (parsed ! i) = ID (parsed ! j)"
    then have j: "j < length (take 50 parsed)" and i: "i < length (take 50 parsed)"
      unfolding c1 by simp_all
    have ni: "take 50 parsed ! i = parsed ! i" and nj: "take 50 parsed ! j = parsed ! j"
      using i j by simp_all
    have mi: "parsed ! i \<in> set (take 50 parsed)"
      using nth_mem [OF i] ni by simp
    have mj: "parsed ! j \<in> set (take 50 parsed)"
      using nth_mem [OF j] nj by simp
    have "ID (take 50 parsed ! i) = ID (take 50 parsed ! j)"
      using h ni nj by simp
    then have nd: "\<not> distinct (map ID (take 50 parsed))"
      using same_id_not_distinct [of i j "take 50 parsed"] h j by blast
    show "parsed ! i \<in> set ?loaded \<and> parsed ! j \<in> set ?loaded \<and> \<not> distinct (map ID ?loaded)"
      unfolding c1 using mi mj nd by blast
  qed
  have c5: "distinct (map ID (recentNotifications s')) \<longrightarrow>
            distinct (map ID (GetRecentNotifications (fst (addAll env batches (s', d)))))"
    unfolding GetRecentNotifications_def
    using addAll_distinct [of "(s', d)" env batches] by simp
  have c6: "\<not> distinct (map ID (recentNotifications s'')) \<and>
          ID ` set batch \<inter> ID ` set (recentNotifications s'') = {} \<and>
          length (firstByID {} batch) + length (recentNotifications s'') \<le> 50 \<longrightarrow>
            \<not> distinct (map ID (GetRecentNotifications
                                  (fst (addNotifications env batch (s'', d)))))"
  proof
    assume h: "\<not> distinct (map ID (recentNotifications s'')) \<and>
          ID ` set batch \<inter> ID ` set (recentNotifications s'') = {} \<and>
          length (firstByID {} batch) + length (recentNotifications s'') \<le> 50"
    then have "GetRecentNotifications (fst (addNotifications env batch (s'', d)))
          = firstByID {} batch @ recentNotifications s''"
      by (simp only: GetRecentNotifications_def addNotifications_recent
            addNotifications_locked_untouched)
    then show "\<not> distinct (map ID (GetRecentNotifications
                                  (fst (addNotifications env batch (s'', d)))))"
      using h by simp
  qed
  show ?thesis
    by (intro conjI c1 c2 c3 c4 c5 c6)
qed

theorem C10_load_truncates_without_deduplicating_witness:
  "ReadFile_ok tableEnv \<and> Unmarshal tableEnv ''[github_2, github_2]'' = Some [n_b, n_b2] \<and>
   ID n_b = ID n_b2 \<and>
   GetRecentNotifications (NewScheduler tableEnv (Some ''[github_2, github_2]'')) = [n_b, n_b2] \<and>
   \<not> distinct (map ID (GetRecentNotifications
                         (NewScheduler tableEnv (Some ''[github_2, github_2]'')))) \<and>
   distinct (map ID (GetRecentNotifications
      (fst (addAll tableEnv [[n_a, n_b], [n_b2]] (\<lparr>recentNotifications = [n_b2]\<rparr>, None))))) \<and>
   \<not> distinct (map ID (GetRecentNotifications
      (fst (addNotifications tableEnv [n_a]
              (NewScheduler tableEnv (Some ''[github_2, github_2]''), None))))) \<and>
   Unmarshal tableEnv ''[github_2, 49 * github_1, github_2]'' = Some longList \<and>
   GetRecentNotifications
     (NewScheduler tableEnv (Some ''[github_2, 49 * github_1, github_2]'')) = take 50 longList"
proof -
  have h: "ReadFile_ok tableEnv" "Unmarshal tableEnv ''[github_2, github_2]'' = Some [n_b, n_b2]"
    by (simp_all add: tableEnv_def)
  have h': "Unmarshal tableEnv ''[github_2, 49 * github_1, github_2]'' = Some longList"
    by (simp add: tableEnv_def)
  have ld: "NewScheduler tableEnv (Some ''[github_2, github_2]'')
              = \<lparr>recentNotifications = [n_b, n_b2]\<rparr>"
    by (simp add: NewScheduler_def loadNotifications_def tableEnv_def)
  have i: "ID n_b = ID n_b2" "ID n_a \<noteq> ID n_b" "ID n_a \<noteq> ID n_b2"
    by (simp_all add: n_a_def n_b_def n_b2_def)
  note t = C10_load_truncates_without_deduplicating
            [OF h, of "\<lparr>recentNotifications = []\<rparr>" "\<lparr>recentNotifications = [n_b2]\<rparr>"
               "[[n_a, n_b], [n_b2]]" None "\<lparr>recentNotifications = [n_b, n_b2]\<rparr>" "[n_a]"]
  note u = C10_load_truncates_without_deduplicating [OF h(1) h']
  have a: "GetRecentNotifications (NewScheduler tableEnv (Some ''[github_2, github_2]''))
             = [n_b, n_b2]"
    using t by simp
  have b: "distinct (map ID (GetRecentNotifications
      (fst (addAll tableEnv [[n_a, n_b], [n_b2]] (\<lparr>recentNotifications = [n_b2]\<rparr>, None)))))"
    using t by simp
  have c: "\<not> distinct (map ID (GetRecentNotifications
      (fst (addNotifications tableEnv [n_a] (\<lparr>recentNotifications = [n_b, n_b2]\<rparr>, None)))))"
    using t i by simp
  have e: "GetRecentNotifications
     (NewScheduler tableEnv (Some ''[github_2, 49 * github_1, github_2]'')) = take 50 longList"
    using u by blast
  show ?thesis
    using h h' a b c e i by (simp add: ld)
qed

section \<open>Properties of the delivery guard\<close>







lemma Notify_notified_noop:
  "lookup (notifiedIDs n) (ID x) \<Longrightarrow> Notify env x (n, pushed) = (None, (n, pushed))"
  by (simp add: Notify_def)












section \<open>Properties of the issue-tracker monitor\<close>

lemma FetchNotificationsSince_no_token:
  "token m = [] \<Longrightarrow>
   FetchNotificationsSince env since (m, sent) = (Inl TokenNotSet, (m, sent))"
  by (simp add: FetchNotificationsSince_def)

lemma FetchNotificationsSince_not_modified:
  assumes "token m \<noteq> []"
    and "Do env (notificationsRequest env m zeroTime) = Some resp"
    and "StatusCode resp = 304" and "LastModified resp \<noteq> []"
    and "ParseTime env (LastModified resp) = Some T2"
  shows "fst (FetchNotifications env (m, sent)) = Inr [] \<and>
         lastModified (fst (snd (FetchNotifications env (m, sent)))) = T2"
  using assms
  by (simp add: FetchNotifications_def FetchNotificationsSince_def updateLastModified_def
        Let_def)

lemma FetchNotificationsSince_error_before_decode:
  assumes "fst (FetchNotificationsSince env since (m, sent)) = Inl err"
    and "err \<noteq> ParseResponseFailed"
  shows "fst (snd (FetchNotificationsSince env since (m, sent))) = m"
proof (cases "token m = []")
  case True
  then show ?thesis by (simp add: FetchNotificationsSince_def)
next
  case tok: False
  show ?thesis
  proof (cases "Do env (notificationsRequest env m since)")
    case None
    then show ?thesis using tok by (simp add: FetchNotificationsSince_def Let_def)
  next
    case (Some resp)
    show ?thesis
    proof (cases "StatusCode resp = 304")
      case True
      then show ?thesis
        using tok Some assms(1) by (simp add: FetchNotificationsSince_def Let_def)
    next
      case nm: False
      show ?thesis
      proof (cases "Body resp")
        case None
        then show ?thesis
          using tok Some nm by (simp add: FetchNotificationsSince_def Let_def)
      next
        case body: (Some bodyBytes)
        show ?thesis
        proof (cases "StatusCode resp \<noteq> 200")
          case True
          then show ?thesis
            using tok Some nm body by (simp add: FetchNotificationsSince_def Let_def)
        next
          case False
          then show ?thesis
            using tok Some nm body assms
            by (cases "UnmarshalItems env bodyBytes")
               (simp_all add: FetchNotificationsSince_def Let_def case_prod_beta)
        qed
      qed
    qed
  qed
qed


text \<open>
  C4: a response with status 200 and a \<^verbatim>\<open>Last-Modified\<close> header whose body does not
  decode makes \<^verbatim>\<open>FetchNotificationsSince\<close> return an error, and the cursor has moved
  from 2024-01-01 to the header's 2024-01-02 all the same: lines 474-481 set it before
  line 517 decodes the body.
\<close>

theorem C4_decode_error_advances_cursor:
  "lastModified ghMonitorT1 = 1704067200 \<and>
   fst (FetchNotifications ghEnvBadBody (ghMonitorT1, [])) = Inl ParseResponseFailed \<and>
   lastModified (fst (snd (FetchNotifications ghEnvBadBody (ghMonitorT1, [])))) = 1704153600"
  by (simp add: FetchNotifications_def FetchNotificationsSince_def updateLastModified_def
        notificationsRequest_def ghMonitorT1_def ghEnvBadBody_def IsZero_def zeroTime_def
        Let_def)

section \<open>Properties of the community-site monitor\<close>

lemma saveSeenArticles_requests [simp]:
  "requests (saveSeenArticles env st) = requests st"
  by (simp add: saveSeenArticles_def)

lemma saveSeenMessages_requests [simp]:
  "requests (saveSeenMessages env st) = requests st"
  by (simp add: saveSeenMessages_def)















section \<open>Properties of decimal printing\<close>

lemma digit_table:
  "list_all (\<lambda>n. valDigit (digitChar n) = n \<and> digitChar n \<noteq> CHR ''-'') [0..<10]"
  by code_simp

lemma valDigit_digitChar: "n < 10 \<Longrightarrow> valDigit (digitChar n) = n"
  using digit_table by (simp only: list_all_iff set_upt) simp

lemma digitChar_not_minus: "n < 10 \<Longrightarrow> digitChar n \<noteq> CHR ''-''"
  using digit_table by (simp only: list_all_iff set_upt) simp

lemma valNat_snoc: "valNat (s @ [c]) = 10 * valNat s + valDigit c"
  by (simp add: valNat_def)

lemma valNat_decNat: "valNat (decNat n) = n"
proof (induction n rule: decNat.induct)
  case (1 n)
  show ?case
  proof (cases "n < 10")
    case True
    then show ?thesis
      by (subst decNat.simps) (simp add: valNat_def valDigit_digitChar)
  next
    case False
    then have "valNat (decNat (n div 10)) = n div 10" using "1.IH" by simp
    then show ?thesis
      using False by (subst decNat.simps) (simp add: valNat_snoc valDigit_digitChar)
  qed
qed

lemma decNat_inj: "decNat a = decNat b \<Longrightarrow> a = b"
  using valNat_decNat [of a] valNat_decNat [of b] by simp

lemma decNat_no_minus: "CHR ''-'' \<notin> set (decNat n)"
proof (induction n rule: decNat.induct)
  case (1 n)
  show ?case
  proof (cases "n < 10")
    case True
    then show ?thesis
      using digitChar_not_minus [of n] by (subst decNat.simps) auto
  next
    case False
    then show ?thesis
      using "1.IH" digitChar_not_minus [of "n mod 10"] by (subst decNat.simps) auto
  qed
qed

lemma fmt_d_inj: "fmt_d i = fmt_d j \<Longrightarrow> i = j"
proof -
  assume e: "fmt_d i = fmt_d j"
  have m: "CHR ''-'' # xs \<noteq> decNat n" for xs n
    using decNat_no_minus [of n] by (metis list.set_intros(1))
  show ?thesis
  proof (cases "i < 0")
    case True
    show ?thesis
    proof (cases "j < 0")
      case True
      then have "decNat (nat (- i)) = decNat (nat (- j))"
        using e \<open>i < 0\<close> by (simp add: fmt_d_def)
      then have "nat (- i) = nat (- j)" by (rule decNat_inj)
      then show ?thesis using True \<open>i < 0\<close> by simp
    next
      case False
      then show ?thesis using e \<open>i < 0\<close> m by (simp add: fmt_d_def)
    qed
  next
    case False
    show ?thesis
    proof (cases "j < 0")
      case True
      then show ?thesis using e False m [of "decNat (nat (- j))" "nat i"] by (simp add: fmt_d_def)
    next
      case jn: False
      then have "decNat (nat i) = decNat (nat j)"
        using e False by (simp add: fmt_d_def)
      then have "nat i = nat j" by (rule decNat_inj)
      then show ?thesis using False jn by simp
    qed
  qed
qed

section \<open>Properties of the recent-activity reconciliation\<close>








lemma saveSeenArticles_monitor [simp]: "monitor (saveSeenArticles env st) = monitor st"
  by (simp add: saveSeenArticles_def)





lemma updated_identifier_differs:
  "''ld246_article_'' @ oid @ ''_'' @ fmt_d t \<noteq> ''ld246_article_'' @ oid \<and>
   (t \<noteq> t' \<longrightarrow> ''ld246_article_'' @ oid @ ''_'' @ fmt_d t
                \<noteq> ''ld246_article_'' @ oid @ ''_'' @ fmt_d t')"
  using fmt_d_inj [of t t'] by auto

text \<open>
  C6: an item is listed with update time 200 and 1 reply, then with update time 300 and 2
  replies, then with update time 300 and 3 replies. The third fetch yields a notification
  for the new reply, and its identifier is that of the second fetch's notification: the
  identifier is built from the update time only (line 1029), which a change of the reply
  count alone (line 992) does not move. A delivery guard that delivered the second
  notification drops the third.
\<close>

theorem C6_count_only_update_repeats_identifier:
  "fetchedIDs (fst (FetchRecentReplies ldEnvListing ldStateNoToken))
     = Some [''ld246_article_1700000000001''] \<and>
   fetchedIDs (fst (FetchRecentReplies ldEnvListing2 afterFirstFetch))
     = Some [''ld246_article_1700000000001_300''] \<and>
   fetchedIDs (fst (FetchRecentReplies ldEnvListing3 afterSecondFetch))
     = Some [''ld246_article_1700000000001_300''] \<and>
   map ID (snd (snd (NotifyBatch okSink
             (batchOf (fst (FetchRecentReplies ldEnvListing3 afterSecondFetch)))
             (snd (NotifyBatch okSink
                (batchOf (fst (FetchRecentReplies ldEnvListing2 afterFirstFetch)))
                (snd (NotifyBatch okSink
                   (batchOf (fst (FetchRecentReplies ldEnvListing ldStateNoToken)))
                   (NewWindowsNotifier [], []))))))))
     = [''ld246_article_1700000000001'', ''ld246_article_1700000000001_300'']"
  by code_simp

section \<open>Properties of the chat notification\<close>

















end
